theory Spec2Isabelle
  imports Complex_Main "HOL-Library.Char_ord" "HOL-Library.List_Lexorder"
begin

section \<open>Values shared by the sampler, the ingestor and the snapshot builder\<close>

text \<open>
  Python floats are modelled as reals (no rounding, no NaN, no infinities); Python ints are
  \<open>int\<close>. Strings are byte strings; case mapping and white space are the ASCII ones.
\<close>

datatype py_error =
    IndexError | ValueError | TypeError | OverflowError | OperationalError | InterfaceError

text \<open>
  A value inside a decoded JSON document. A float carries its value and the text that
  \<open>str()\<close> renders for it; an array or object is kept as its truth value (non-empty or
  not) and the text \<open>str()\<close> renders for it, which is all the ingestor ever asks of one.
\<close>

datatype jval =
    JNull
  | JBool bool
  | JInt int
  | JFloat real string
  | JStr string
  | JCompound bool string

text \<open>What \<open>json.loads\<close> makes of a payload: it raises, or yields a non-dict, or a dict.\<close>

datatype payload =
    Unparseable
  | Scalar jval
  | Object "(string \<times> jval) list"

record mqtt_msg =
  topic :: string
  raw :: string
  parsed :: payload

section \<open>estadisticas.py: the counter sampler and the QoS arbitration\<close>

definition TOPIC_TOMA1_TELEM :: string where "TOPIC_TOMA1_TELEM = ''safegrid/toma1/telemetry''"
definition TOPIC_TOMA1_ALERT :: string where "TOPIC_TOMA1_ALERT = ''safegrid/toma1/alert''"
definition TOPIC_TOMA1_STATUS :: string where "TOPIC_TOMA1_STATUS = ''safegrid/toma1/status''"
definition INTERVAL :: real where "INTERVAL = 1"
definition CLASS_HIGH :: string where "CLASS_HIGH = ''1:10''"
definition CLASS_MED :: string where "CLASS_MED = ''1:20''"
definition CLASS_LOW :: string where "CLASS_LOW = ''1:30''"

definition is_space :: "char \<Rightarrow> bool" where
  "is_space c = (c \<in> set [CHR '' '', CHR 0x09, CHR 0x0A, CHR 0x0B, CHR 0x0C, CHR 0x0D])"

definition strip :: "string \<Rightarrow> string" where
  "strip s = rev (dropWhile is_space (rev (dropWhile is_space s)))"

text \<open>The module-level dict \<open>latest_toma1\<close>, guarded by \<open>_latest_lock\<close>.\<close>

record latest_toma1 =
  telemetry :: "payload option"
  alert :: "payload option"
  status :: "string option"
  arrived :: "real option"
  bytes_telem :: nat
  bytes_alert :: nat
  bytes_status :: nat

definition latest_init :: latest_toma1 where
  "latest_init = \<lparr>telemetry = None, alert = None, status = None, arrived = None,
     bytes_telem = 0, bytes_alert = 0, bytes_status = 0\<rparr>"

text \<open>
  \<open>_on_message\<close>, run under the lock at time \<open>t\<close>: an unparseable payload becomes the
  dict \<open>{"raw": payload}\<close>; the byte counter of the matching topic grows by \<open>len(raw)\<close>.
\<close>

definition on_message :: "latest_toma1 \<Rightarrow> mqtt_msg \<Rightarrow> real \<Rightarrow> latest_toma1" where
  "on_message l msg t =
     (let data = (case parsed msg of Unparseable \<Rightarrow> Object [(''raw'', JStr (raw msg))] | p \<Rightarrow> p);
          nbytes = length (raw msg);
          l1 = (if topic msg = TOPIC_TOMA1_TELEM
                  then l\<lparr>telemetry := Some data, bytes_telem := bytes_telem l + nbytes\<rparr>
                else if topic msg = TOPIC_TOMA1_ALERT
                  then l\<lparr>alert := Some data, bytes_alert := bytes_alert l + nbytes\<rparr>
                else if topic msg = TOPIC_TOMA1_STATUS
                  then l\<lparr>status := Some (strip (raw msg)), bytes_status := bytes_status l + nbytes\<rparr>
                else l)
      in l1\<lparr>arrived := Some t\<rparr>)"

text \<open>
  \<open>cpu_usage_total_idle\<close> on the numeric fields of the first line of /proc/stat
  (\<open>parts[1:8]\<close>): indexing \<open>vals[4]\<close> raises when fewer than five fields are there.
\<close>

definition cpu_usage_total_idle :: "int list \<Rightarrow> py_error + (int \<times> int)" where
  "cpu_usage_total_idle parts =
     (let vals = take 7 parts in
      if length vals < 5 then Inl IndexError
      else Inr (sum_list vals, vals ! 3 + vals ! 4))"

text \<open>The CPU percentage of the main loop, from the previous and the current pair.\<close>

definition main_cpu_pct :: "int \<times> int \<Rightarrow> int \<times> int \<Rightarrow> real" where
  "main_cpu_pct t0 t1 =
     (let dt_total = fst t1 - fst t0;
          dt_idle = snd t1 - snd t0
      in if dt_total \<le> 0 then 0
         else 100 * (1 - real_of_int dt_idle / real_of_int dt_total))"

definition rate_mbps :: "int option \<Rightarrow> int option \<Rightarrow> real option" where
  "rate_mbps cur prev =
     (case cur of None \<Rightarrow> None
      | Some c \<Rightarrow>
        (case prev of None \<Rightarrow> None
         | Some p \<Rightarrow>
           (let d = c - p in
            if d < 0 then None
            else Some ((real_of_int d * 8) / (INTERVAL * 1000000)))))"

text \<open>The loop variables of \<open>main\<close> that survive from one tick to the next.\<close>

record sampler =
  t0 :: "int \<times> int"
  rx0 :: real
  tx0 :: real
  last_hi :: "int option"
  last_med :: "int option"
  last_low :: "int option"

text \<open>
  What one tick reads from the host: the CPU pair, the interface byte counters and the
  dict of \<open>tc_class_bytes\<close> (empty when the shaper is absent or the tool fails).
\<close>

record readings =
  cpu :: "int \<times> int"
  net :: "real \<times> real"
  cur_tc :: "(string \<times> int) list"

record tick_out =
  cpu_pct_out :: real
  total_mbps :: real
  telem_mbps :: real
  alert_mbps :: real
  hi_mbps :: real
  med_mbps :: real
  low_mbps :: real
  qos_src :: string

text \<open>Step 1 of the tick: the shaper-derived rates, all \<open>None\<close> when the dict is empty.\<close>

definition tc_rates :: "sampler \<Rightarrow> (string \<times> int) list \<Rightarrow> real option \<times> real option \<times> real option" where
  "tc_rates st tc =
     (if tc \<noteq> [] then
        (rate_mbps (map_of tc CLASS_HIGH) (last_hi st),
         rate_mbps (map_of tc CLASS_MED) (last_med st),
         rate_mbps (map_of tc CLASS_LOW) (last_low st))
      else (None, None, None))"

text \<open>Python's \<open>x is not None\<close>.\<close>

definition is_not_none :: "'a option \<Rightarrow> bool" where
  "is_not_none x = (case x of None \<Rightarrow> False | Some _ \<Rightarrow> True)"

text \<open>The selection of the source, lines 298 to 309.\<close>

definition arbitrate ::
  "real option \<times> real option \<times> real option \<Rightarrow> real \<Rightarrow> real \<Rightarrow> real \<Rightarrow> real \<times> real \<times> real \<times> string" where
  "arbitrate tc total_m alert_r telem_r =
     (case tc of (hi_tc, med_tc, low_tc) \<Rightarrow>
        (let use_tc = (is_not_none hi_tc \<or> is_not_none med_tc \<or> is_not_none low_tc) in
         if use_tc then
           (let hi = (case hi_tc of Some r \<Rightarrow> r | None \<Rightarrow> 0);
                med = (case med_tc of Some r \<Rightarrow> r | None \<Rightarrow> 0);
                low = (case low_tc of Some r \<Rightarrow> r | None \<Rightarrow> max (total_m - hi - med) 0)
            in (hi, med, low, ''tc''))
         else
           (let hi = alert_r;
                med = telem_r;
                low = max (total_m - hi - med) 0
            in (hi, med, low, ''mqtt''))))"

text \<open>
  One pass of the \<open>while True\<close> body up to the selection of the source (lines 236 to
  309): the new loop variables, the accumulators after the locked read-and-reset, and the
  values the tick computed. Building and publishing the two payloads is not modelled.
\<close>

definition tick :: "sampler \<Rightarrow> latest_toma1 \<Rightarrow> readings \<Rightarrow> tick_out \<times> sampler \<times> latest_toma1" where
  "tick st l rd =
     (let cpu_pct = main_cpu_pct (t0 st) (cpu rd);
          drx = fst (net rd) - rx0 st;
          dtx = snd (net rd) - tx0 st;
          down_mbps = (drx * 8) / (INTERVAL * 1000000);
          up_mbps = (dtx * 8) / (INTERVAL * 1000000);
          total_m = max (down_mbps + up_mbps) 0;
          tc = tc_rates st (cur_tc rd);
          st1 = st\<lparr>t0 := cpu rd, rx0 := fst (net rd), tx0 := snd (net rd)\<rparr>;
          st2 = (if cur_tc rd \<noteq> [] then
                   st1\<lparr>last_hi := map_of (cur_tc rd) CLASS_HIGH,
                       last_med := map_of (cur_tc rd) CLASS_MED,
                       last_low := map_of (cur_tc rd) CLASS_LOW\<rparr>
                 else st1);
          b_telem = bytes_telem l;
          b_alert = bytes_alert l;
          l1 = l\<lparr>bytes_telem := 0, bytes_alert := 0\<rparr>;
          telem_r = (real b_telem * 8) / (INTERVAL * 1000000);
          alert_r = (real b_alert * 8) / (INTERVAL * 1000000)
      in case arbitrate tc total_m alert_r telem_r of (hi, med, low, src) \<Rightarrow>
           (\<lparr>cpu_pct_out = cpu_pct, total_mbps = total_m, telem_mbps = telem_r,
             alert_mbps = alert_r, hi_mbps = hi, med_mbps = med, low_mbps = low,
             qos_src = src\<rparr>, st2, l1))"

section \<open>stats_writer.py: the sampler that writes to the store directly\<close>

text \<open>
  \<open>cpu_pct\<close> with its global \<open>_prev_cpu\<close>; the argument is the list of numeric fields
  of /proc/stat, or \<open>None\<close> when reading or parsing it raised. Every exception is caught
  and gives 0.0, leaving the global as it was.
\<close>

definition cpu_pct :: "(int \<times> int) option \<Rightarrow> int list option \<Rightarrow> real \<times> (int \<times> int) option" where
  "cpu_pct prev_cpu reading =
     (case reading of None \<Rightarrow> (0, prev_cpu)
      | Some vals \<Rightarrow>
        if length vals < 4 then (0, prev_cpu)
        else
          (let idle = vals ! 3 + (if length vals > 4 then vals ! 4 else 0);
               total_t = sum_list vals
           in case prev_cpu of None \<Rightarrow> (0, Some (total_t, idle))
              | Some (pt, p_idle) \<Rightarrow>
                (let dt = total_t - pt;
                     di = idle - p_idle
                 in if dt \<le> 0 then (0, Some (total_t, idle))
                    else (max 0 (min 100 (real_of_int (dt - di) / real_of_int dt * 100)),
                          Some (total_t, idle)))))"

text \<open>The globals \<open>_rx\<close> and \<open>_last_t\<close> of \<open>net_mbps\<close>.\<close>

record net_state =
  rx :: "string \<rightharpoonup> int"
  last_t :: "real option"

text \<open>
  The inner function \<open>calc\<close>: \<open>b\<close> is the parsed dict of this reading, \<open>dt\<close> the elapsed
  time. It returns the rate and the updated \<open>_rx\<close>.
\<close>

definition calc :: "(string \<rightharpoonup> int) \<Rightarrow> real \<Rightarrow> (string \<rightharpoonup> int) \<Rightarrow> string \<Rightarrow> real \<times> (string \<rightharpoonup> int)" where
  "calc b dt rx_map cid =
     (let cur = (case b cid of Some v \<Rightarrow> v | None \<Rightarrow> 0);
          prev = (case rx_map cid of Some v \<Rightarrow> v | None \<Rightarrow> cur);
          dbytes = max 0 (cur - prev)
      in ((real_of_int dbytes * 8 / dt) / 1000000, rx_map(cid \<mapsto> cur)))"

text \<open>
  \<open>net_mbps\<close> at time \<open>now\<close>; the second argument is \<open>None\<close> when the output of tc is
  blank, else the dict \<open>_parse_tc_bytes\<close> made of it.
\<close>

definition net_mbps :: "net_state \<Rightarrow> real \<Rightarrow> (string \<rightharpoonup> int) option \<Rightarrow> (real \<times> real \<times> real) \<times> net_state" where
  "net_mbps s now tc =
     (case tc of None \<Rightarrow> ((0, 0, 0), s)
      | Some b \<Rightarrow>
        (case last_t s of None \<Rightarrow> ((0, 0, 0), \<lparr>rx = b, last_t = Some now\<rparr>)
         | Some lt \<Rightarrow>
           (let dt = max (2 / 10) (now - lt);
                (hi, rx1) = calc b dt (rx s) CLASS_HIGH;
                (med, rx2) = calc b dt rx1 CLASS_MED;
                (low, rx3) = calc b dt rx2 CLASS_LOW
            in ((hi, med, low), \<lparr>rx = rx3, last_t = Some now\<rparr>))))"

section \<open>The store: an SQLite file shared by the writers and the snapshot builder\<close>

text \<open>
  A stored value, a row as the columns it was inserted with (a column added later reads
  as NULL), a table as its declared columns and its rows in insertion order, and the
  database file: its tables, its indexes and whether its journal mode is WAL (which
  \<open>PRAGMA journal_mode=WAL\<close> records in the file). Identifiers are compared as written.
  A row keeps the values as they were bound; column affinity is not modelled.
\<close>

datatype sqlval = Null | IntV int | RealV real | TextV string

type_synonym row = "(string \<times> sqlval) list"

record table =
  t_cols :: "(string \<times> string) list"
  t_rows :: "row list"

record db =
  tables :: "string \<rightharpoonup> table"
  indexes :: "string \<rightharpoonup> string \<times> string list"
  wal :: bool

definition empty_db :: db where
  "empty_db = \<lparr>tables = Map.empty, indexes = Map.empty, wal = False\<rparr>"

definition rget :: "row \<Rightarrow> string \<Rightarrow> sqlval" where
  "rget r c = (case map_of r c of Some v \<Rightarrow> v | None \<Rightarrow> Null)"

definition rows_of :: "db \<Rightarrow> string \<Rightarrow> row list" where
  "rows_of d tname = (case tables d tname of None \<Rightarrow> [] | Some t \<Rightarrow> t_rows t)"

text \<open>\<open>PRAGMA table_info\<close>: the declared columns, none for a table that is not there.\<close>

definition table_info :: "db \<Rightarrow> string \<Rightarrow> (string \<times> string) list" where
  "table_info d tname = (case tables d tname of None \<Rightarrow> [] | Some t \<Rightarrow> t_cols t)"

definition has_cols :: "table \<Rightarrow> string list \<Rightarrow> bool" where
  "has_cols t cs = list_all (\<lambda>c. c \<in> set (map fst (t_cols t))) cs"

text \<open>\<open>PRAGMA journal_mode=WAL\<close>.\<close>

definition set_wal :: "db \<Rightarrow> db" where
  "set_wal d = d\<lparr>wal := True\<rparr>"

text \<open>\<open>CREATE TABLE IF NOT EXISTS\<close>.\<close>

definition create_table :: "string \<Rightarrow> (string \<times> string) list \<Rightarrow> db \<Rightarrow> py_error + db" where
  "create_table tname cols d =
     (case tables d tname of
        Some t \<Rightarrow> Inr d
      | None \<Rightarrow> Inr (d\<lparr>tables := (tables d)(tname \<mapsto> \<lparr>t_cols = cols, t_rows = []\<rparr>)\<rparr>))"

text \<open>
  \<open>CREATE INDEX IF NOT EXISTS\<close>: nothing happens when an index of that name exists;
  otherwise the table and the indexed columns must exist.
\<close>

definition create_index :: "string \<Rightarrow> string \<Rightarrow> string list \<Rightarrow> db \<Rightarrow> py_error + db" where
  "create_index iname tname cols d =
     (case indexes d iname of
        Some i \<Rightarrow> Inr d
      | None \<Rightarrow>
        (case tables d tname of
           None \<Rightarrow> Inl OperationalError
         | Some t \<Rightarrow>
           if has_cols t cols
           then Inr (d\<lparr>indexes := (indexes d)(iname \<mapsto> (tname, cols))\<rparr>)
           else Inl OperationalError))"

text \<open>\<open>ALTER TABLE ... ADD COLUMN\<close>: the rows are left as they are.\<close>

definition add_column :: "string \<Rightarrow> string \<times> string \<Rightarrow> db \<Rightarrow> py_error + db" where
  "add_column tname col d =
     (case tables d tname of
        None \<Rightarrow> Inl OperationalError
      | Some t \<Rightarrow>
        if fst col \<in> set (map fst (t_cols t)) then Inl OperationalError
        else Inr (d\<lparr>tables := (tables d)(tname \<mapsto> t\<lparr>t_cols := t_cols t @ [col]\<rparr>)\<rparr>))"

text \<open>\<open>INSERT INTO tname(columns) VALUES(...)\<close>: one row appended.\<close>

definition sql_insert :: "string \<Rightarrow> row \<Rightarrow> db \<Rightarrow> py_error + db" where
  "sql_insert tname r d =
     (case tables d tname of
        None \<Rightarrow> Inl OperationalError
      | Some t \<Rightarrow>
        if has_cols t (map fst r)
        then Inr (d\<lparr>tables := (tables d)(tname \<mapsto> t\<lparr>t_rows := t_rows t @ [r]\<rparr>)\<rparr>)
        else Inl OperationalError)"

text \<open>
  Statements run one after the other on a connection in autocommit mode: the first that
  raises ends the run, and what the earlier ones wrote stays.
\<close>

fun run :: "(db \<Rightarrow> py_error + db) list \<Rightarrow> db \<Rightarrow> py_error option \<times> db" where
  "run [] d = (None, d)"
| "run (s # ss) d = (case s d of Inl e \<Rightarrow> (Some e, d) | Inr d' \<Rightarrow> run ss d')"

section \<open>ingest_tomas.py: the message ingestor\<close>

subsection \<open>Python and JSON values\<close>

definition lower_char :: "char \<Rightarrow> char" where
  "lower_char c =
     (if CHR ''A'' \<le> c \<and> c \<le> CHR ''Z'' then char_of (of_char c + (32::nat)) else c)"

definition lower :: "string \<Rightarrow> string" where
  "lower s = map lower_char s"

text \<open>\<open>s.split(sep)\<close> for a one-character separator.\<close>

fun split_on :: "char \<Rightarrow> string \<Rightarrow> string list" where
  "split_on sep [] = [[]]"
| "split_on sep (c # cs) =
     (if c = sep then [] # split_on sep cs
      else (case split_on sep cs of p # ps \<Rightarrow> (c # p) # ps | [] \<Rightarrow> [[c]]))"

definition is_digit :: "char \<Rightarrow> bool" where
  "is_digit c = (CHR ''0'' \<le> c \<and> c \<le> CHR ''9'')"

definition dec_val :: "string \<Rightarrow> nat" where
  "dec_val s = foldl (\<lambda>a c. 10 * a + (of_char c - 48)) 0 s"

definition all_digits :: "string \<Rightarrow> bool" where
  "all_digits s = (s \<noteq> [] \<and> list_all is_digit s)"

definition split_sign :: "string \<Rightarrow> bool \<times> string" where
  "split_sign s =
     (case s of
        [] \<Rightarrow> (False, [])
      | c # cs \<Rightarrow>
        if c = CHR ''-'' then (True, cs)
        else if c = CHR ''+'' then (False, cs)
        else (False, s))"

text \<open>
  \<open>int(s)\<close> and \<open>float(s)\<close> on a string, for plain decimal literals: surrounding white
  space, an optional sign, digits, and for floats an optional fraction and exponent.
  \<open>None\<close> stands for ValueError. The underscores between digits, the non-ASCII digits
  and the spellings of infinity and NaN that Python also accepts are not modelled.
\<close>

definition str_to_int :: "string \<Rightarrow> int option" where
  "str_to_int s =
     (case split_sign (strip s) of (neg, body) \<Rightarrow>
        if all_digits body
        then Some (if neg then - int (dec_val body) else int (dec_val body))
        else None)"

definition str_to_mantissa :: "string \<Rightarrow> real option" where
  "str_to_mantissa m =
     (let ip = takeWhile is_digit m;
          rest = dropWhile is_digit m
      in case rest of
           [] \<Rightarrow> (if ip = [] then None else Some (real (dec_val ip)))
         | c # fp \<Rightarrow>
           if c = CHR ''.'' \<and> list_all is_digit fp \<and> (ip \<noteq> [] \<or> fp \<noteq> [])
           then Some (real (dec_val ip) + real (dec_val fp) / 10 ^ length fp)
           else None)"

definition str_to_float :: "string \<Rightarrow> real option" where
  "str_to_float s =
     (case split_sign (strip s) of (neg, body) \<Rightarrow>
        (let is_e = (\<lambda>c. c = CHR ''e'' \<or> c = CHR ''E'');
             m = takeWhile (\<lambda>c. \<not> is_e c) body;
             ex = dropWhile (\<lambda>c. \<not> is_e c) body
         in case str_to_mantissa m of
              None \<Rightarrow> None
            | Some v \<Rightarrow>
              (let sv = (if neg then - v else v) in
               case ex of
                 [] \<Rightarrow> Some sv
               | e # es \<Rightarrow>
                 (case split_sign es of (eneg, ds) \<Rightarrow>
                    if all_digits ds
                    then Some (if eneg then sv / 10 ^ dec_val ds else sv * 10 ^ dec_val ds)
                    else None))))"

text \<open>\<open>doc.get(k)\<close>: Python's \<open>None\<close> is \<open>JNull\<close>, for a missing key as for a null.\<close>

definition dget :: "(string \<times> jval) list \<Rightarrow> string \<Rightarrow> jval" where
  "dget doc k = (case map_of doc k of Some v \<Rightarrow> v | None \<Rightarrow> JNull)"

fun truthy :: "jval \<Rightarrow> bool" where
  "truthy JNull = False"
| "truthy (JBool b) = b"
| "truthy (JInt n) = (n \<noteq> 0)"
| "truthy (JFloat x s) = (x \<noteq> 0)"
| "truthy (JStr s) = (s \<noteq> [])"
| "truthy (JCompound ne s) = ne"

text \<open>\<open>a or b\<close>.\<close>

definition py_or :: "jval \<Rightarrow> jval \<Rightarrow> jval" where
  "py_or a b = (if truthy a then a else b)"

fun show_nat :: "nat \<Rightarrow> string" where
  "show_nat n =
     (if n < 10 then [char_of (48 + n)]
      else show_nat (n div 10) @ [char_of (48 + n mod 10)])"

definition show_int :: "int \<Rightarrow> string" where
  "show_int i = (if i < 0 then CHR ''-'' # show_nat (nat (- i)) else show_nat (nat i))"

fun py_str :: "jval \<Rightarrow> string" where
  "py_str JNull = ''None''"
| "py_str (JBool b) = (if b then ''True'' else ''False'')"
| "py_str (JInt n) = show_int n"
| "py_str (JFloat x s) = s"
| "py_str (JStr s) = s"
| "py_str (JCompound ne s) = s"

text \<open>\<open>int(x)\<close> and \<open>float(x)\<close>; \<open>None\<close> stands for the exception they raise.\<close>

fun py_int :: "jval \<Rightarrow> int option" where
  "py_int JNull = None"
| "py_int (JBool b) = Some (if b then 1 else 0)"
| "py_int (JInt n) = Some n"
| "py_int (JFloat x s) = Some (if 0 \<le> x then \<lfloor>x\<rfloor> else \<lceil>x\<rceil>)"
| "py_int (JStr s) = str_to_int s"
| "py_int (JCompound ne s) = None"

fun py_float :: "jval \<Rightarrow> real option" where
  "py_float JNull = None"
| "py_float (JBool b) = Some (if b then 1 else 0)"
| "py_float (JInt n) = Some (real_of_int n)"
| "py_float (JFloat x s) = Some x"
| "py_float (JStr s) = str_to_float s"
| "py_float (JCompound ne s) = None"

definition safe_float :: "jval \<Rightarrow> real option" where
  "safe_float x = (if x = JNull then None else py_float x)"

definition safe_int :: "jval \<Rightarrow> int option" where
  "safe_int x = (if x = JNull then None else py_int x)"

subsection \<open>The schema and the writer\<close>

definition RESERVED_IDS :: "string set" where
  "RESERVED_IDS = {''pi'', ''ap'', ''display'', ''dashboard''}"

definition toma_schema :: "(string \<times> string) list" where
  "toma_schema =
     [(''ts'', ''INTEGER NOT NULL''), (''toma'', ''TEXT NOT NULL''), (''seq'', ''INTEGER''),
      (''ms'', ''INTEGER''), (''sim'', ''INTEGER''), (''is_on'', ''INTEGER''),
      (''amperaje'', ''REAL''), (''potencia_w'', ''REAL''), (''estado'', ''TEXT''),
      (''rssi'', ''INTEGER'')]"

definition alert_schema :: "(string \<times> string) list" where
  "alert_schema = toma_schema @ [(''reason'', ''TEXT'')]"

definition need_toma :: "(string \<times> string) list" where
  "need_toma =
     [(''seq'', ''INTEGER''), (''ms'', ''INTEGER''), (''sim'', ''INTEGER''),
      (''is_on'', ''INTEGER''), (''amperaje'', ''REAL''), (''potencia_w'', ''REAL''),
      (''estado'', ''TEXT''), (''rssi'', ''INTEGER'')]"

definition need_alert :: "(string \<times> string) list" where
  "need_alert = need_toma @ [(''reason'', ''TEXT'')]"

text \<open>
  The loop that adds the missing columns: \<open>have\<close> is read once before the loop, and one
  \<open>ALTER TABLE\<close> runs for each needed column that is not in it.
\<close>

definition add_missing :: "string \<Rightarrow> (string \<times> string) list \<Rightarrow> db \<Rightarrow> py_error option \<times> db" where
  "add_missing tname need d =
     (let have = map fst (table_info d tname)
      in run (map (add_column tname) (filter (\<lambda>col. fst col \<notin> set have) need)) d)"

text \<open>\<open>ensure_schema\<close> of ingest_tomas.py: the error it raised, if any, and the file after it.\<close>

definition ensure_schema_ingest :: "db \<Rightarrow> py_error option \<times> db" where
  "ensure_schema_ingest d0 =
     (case run [create_table ''toma_samples'' toma_schema,
                create_table ''alert_samples'' alert_schema] d0 of
        (Some e, d) \<Rightarrow> (Some e, d)
      | (None, d1) \<Rightarrow>
        (case add_missing ''toma_samples'' need_toma d1 of
           (Some e, d) \<Rightarrow> (Some e, d)
         | (None, d2) \<Rightarrow>
           (case add_missing ''alert_samples'' need_alert d2 of
              (Some e, d) \<Rightarrow> (Some e, d)
            | (None, d3) \<Rightarrow>
              run [create_index ''idx_toma_ts'' ''toma_samples'' [''toma'', ''ts''],
                   create_index ''idx_alert_ts'' ''alert_samples'' [''toma'', ''ts'']] d3)))"

text \<open>\<open>connect_db\<close> sets the journal mode; \<open>Writer.__init__\<close> connects and ensures the schema.\<close>

definition connect_db :: "db \<Rightarrow> db" where
  "connect_db d = set_wal d"

definition Writer_init :: "db \<Rightarrow> py_error option \<times> db" where
  "Writer_init d = ensure_schema_ingest (connect_db d)"

definition topic_to_id :: "string \<Rightarrow> string option" where
  "topic_to_id tp =
     (let parts = split_on CHR ''/'' tp
      in if length parts \<ge> 3 \<and> parts ! 0 = ''safegrid'' then Some (parts ! 1) else None)"

text \<open>
  What sqlite3 does with a parameter: an int must fit 64 bits, a list or dict is refused.
\<close>

definition bind_int :: "int \<Rightarrow> py_error + sqlval" where
  "bind_int n = (if - (2 ^ 63) \<le> n \<and> n < 2 ^ 63 then Inr (IntV n) else Inl OverflowError)"

definition bind_opt_int :: "int option \<Rightarrow> py_error + sqlval" where
  "bind_opt_int v = (case v of None \<Rightarrow> Inr Null | Some n \<Rightarrow> bind_int n)"

definition bind_opt_float :: "real option \<Rightarrow> py_error + sqlval" where
  "bind_opt_float v = (case v of None \<Rightarrow> Inr Null | Some x \<Rightarrow> Inr (RealV x))"

fun bind :: "jval \<Rightarrow> py_error + sqlval" where
  "bind JNull = Inr Null"
| "bind (JBool b) = Inr (IntV (if b then 1 else 0))"
| "bind (JInt n) = bind_int n"
| "bind (JFloat x s) = Inr (RealV x)"
| "bind (JStr s) = Inr (TextV s)"
| "bind (JCompound ne s) = Inl InterfaceError"

fun bind_row :: "(string \<times> (py_error + sqlval)) list \<Rightarrow> py_error + row" where
  "bind_row [] = Inr []"
| "bind_row ((c, v) # cvs) =
     (case v of
        Inl e \<Rightarrow> Inl e
      | Inr x \<Rightarrow> (case bind_row cvs of Inl e \<Rightarrow> Inl e | Inr r \<Rightarrow> Inr ((c, x) # r)))"

text \<open>The expression for the \<open>is_on\<close> column.\<close>

definition is_on_value :: "(string \<times> jval) list \<Rightarrow> int option" where
  "is_on_value doc =
     (if dget doc ''on'' = JBool True then Some 1
      else if dget doc ''on'' = JBool False then Some 0
      else safe_int (dget doc ''is_on''))"

definition telem_params :: "int \<Rightarrow> string \<Rightarrow> (string \<times> jval) list \<Rightarrow> (string \<times> (py_error + sqlval)) list" where
  "telem_params ts toma doc =
     [(''ts'', bind_int ts),
      (''toma'', Inr (TextV toma)),
      (''seq'', bind_opt_int (safe_int (dget doc ''seq''))),
      (''ms'', bind_opt_int (safe_int (dget doc ''ms''))),
      (''sim'', bind_opt_int (safe_int (dget doc ''sim''))),
      (''is_on'', bind_opt_int (is_on_value doc)),
      (''amperaje'', bind_opt_float (safe_float (dget doc ''amperaje''))),
      (''potencia_w'', bind_opt_float (safe_float (dget doc ''potencia_w''))),
      (''estado'', bind (dget doc ''estado'')),
      (''rssi'', bind_opt_int (safe_int (dget doc ''rssi'')))]"

text \<open>
  \<open>Writer.insert_telem\<close> and \<open>Writer.insert_alert\<close> at time \<open>ts\<close>. The status line that
  \<open>_maybe_print\<close> prints now and then does not touch the store and is left out.
\<close>

definition insert_telem :: "int \<Rightarrow> db \<Rightarrow> string \<Rightarrow> (string \<times> jval) list \<Rightarrow> py_error + db" where
  "insert_telem ts d toma doc =
     (case bind_row (telem_params ts toma doc) of
        Inl e \<Rightarrow> Inl e
      | Inr r \<Rightarrow> sql_insert ''toma_samples'' r d)"

definition insert_alert :: "int \<Rightarrow> db \<Rightarrow> string \<Rightarrow> (string \<times> jval) list \<Rightarrow> py_error + db" where
  "insert_alert ts d toma doc =
     (case bind_row (telem_params ts toma doc @ [(''reason'', bind (dget doc ''reason''))]) of
        Inl e \<Rightarrow> Inl e
      | Inr r \<Rightarrow> sql_insert ''alert_samples'' r d)"

text \<open>
  The two callbacks, at time \<open>ts\<close> on the store \<open>d\<close>. Everything after the topic checks
  sits in \<open>try ... except Exception: return\<close>, so an exception leaves the store as it was
  and the callback returns.
\<close>

definition on_telem :: "int \<Rightarrow> db \<Rightarrow> mqtt_msg \<Rightarrow> db" where
  "on_telem ts d msg =
     (let toma = (case topic_to_id (topic msg) of Some t \<Rightarrow> t | None \<Rightarrow> [])
      in if toma = [] then d
         else if lower toma \<in> RESERVED_IDS then d
         else
           (case parsed msg of
              Unparseable \<Rightarrow> d
            | Scalar v \<Rightarrow> d
            | Object doc \<Rightarrow>
              (let t2 = py_or (dget doc ''toma'') (py_or (dget doc ''id'') (JStr toma));
                   toma_norm = lower (strip (py_str t2))
               in if toma_norm \<in> RESERVED_IDS then d
                  else (case insert_telem ts d toma_norm doc of Inl e \<Rightarrow> d | Inr d' \<Rightarrow> d'))))"

definition on_alert :: "int \<Rightarrow> db \<Rightarrow> mqtt_msg \<Rightarrow> db" where
  "on_alert ts d msg =
     (let toma = (case topic_to_id (topic msg) of Some t \<Rightarrow> t | None \<Rightarrow> [])
      in if toma = [] then d
         else
           (case parsed msg of
              Unparseable \<Rightarrow> d
            | Scalar v \<Rightarrow> d
            | Object doc \<Rightarrow>
              (let t2 = py_or (dget doc ''toma'') (py_or (dget doc ''id'') (JStr toma));
                   toma_norm = lower (strip (py_str t2))
               in if toma_norm \<in> RESERVED_IDS then d
                  else (case insert_alert ts d toma_norm doc of Inl e \<Rightarrow> d | Inr d' \<Rightarrow> d'))))"

text \<open>
  The identifier of a message in the words of the spec: the topic segment, or the field
  of the payload when the payload has one, lowercased and trimmed.
\<close>

definition spec_message_id :: "mqtt_msg \<Rightarrow> string option" where
  "spec_message_id msg =
     (case topic_to_id (topic msg) of
        None \<Rightarrow> None
      | Some seg \<Rightarrow>
        (case parsed msg of
           Object doc \<Rightarrow>
             Some (lower (strip (py_str (py_or (dget doc ''toma'') (py_or (dget doc ''id'') (JStr seg))))))
         | _ \<Rightarrow> Some (lower (strip seg))))"

section \<open>snapshot_db.py: the snapshot builder\<close>

definition snap_toma_schema :: "(string \<times> string) list" where
  "snap_toma_schema =
     [(''ts'', ''INTEGER NOT NULL''), (''toma'', ''TEXT NOT NULL''), (''seq'', ''INTEGER''),
      (''is_on'', ''INTEGER''), (''amperaje'', ''REAL''), (''potencia_w'', ''REAL''),
      (''estado'', ''TEXT''), (''rssi'', ''INTEGER'')]"

definition snap_alert_schema :: "(string \<times> string) list" where
  "snap_alert_schema =
     [(''ts'', ''INTEGER NOT NULL''), (''toma'', ''TEXT''), (''seq'', ''INTEGER''),
      (''reason'', ''TEXT''), (''potencia_w'', ''REAL''), (''rssi'', ''INTEGER''),
      (''raw_json'', ''TEXT'')]"

definition pi_schema :: "(string \<times> string) list" where
  "pi_schema =
     [(''ts'', ''INTEGER NOT NULL''), (''cpu_pct'', ''REAL''), (''ram_used_gb'', ''REAL''),
      (''ram_total_gb'', ''REAL''), (''temp_c'', ''REAL''), (''uptime_s'', ''INTEGER'')]"

definition net_schema :: "(string \<times> string) list" where
  "net_schema =
     [(''ts'', ''INTEGER NOT NULL''), (''hi_mbps'', ''REAL''), (''med_mbps'', ''REAL''),
      (''low_mbps'', ''REAL''), (''cap_mbps'', ''REAL''), (''qos_src'', ''TEXT'')]"

text \<open>\<open>_connect\<close>: the journal mode is set on every connection.\<close>

definition connect :: "db \<Rightarrow> db" where
  "connect d = set_wal d"

text \<open>\<open>ensure_schema\<close> of snapshot_db.py: nine statements, no \<open>ALTER TABLE\<close>.\<close>

definition ensure_schema_snapshot :: "db \<Rightarrow> py_error option \<times> db" where
  "ensure_schema_snapshot d =
     run [create_table ''toma_samples'' snap_toma_schema,
          create_index ''idx_toma_ts'' ''toma_samples'' [''toma'', ''ts''],
          create_table ''alert_samples'' snap_alert_schema,
          create_index ''idx_alert_ts'' ''alert_samples'' [''ts''],
          create_index ''idx_alert_toma_ts'' ''alert_samples'' [''toma'', ''ts''],
          create_table ''pi_samples'' pi_schema,
          create_index ''idx_pi_ts'' ''pi_samples'' [''ts''],
          create_table ''net_samples'' net_schema,
          create_index ''idx_net_ts'' ''net_samples'' [''ts'']] d"

subsection \<open>Queries\<close>

text \<open>
  The order of SQLite on stored values: NULL first, then numbers by value, then text by
  bytes.
\<close>

fun sql_le :: "sqlval \<Rightarrow> sqlval \<Rightarrow> bool" where
  "sql_le Null b = True"
| "sql_le (IntV i) b =
     (case b of Null \<Rightarrow> False | IntV j \<Rightarrow> i \<le> j | RealV y \<Rightarrow> real_of_int i \<le> y | TextV t \<Rightarrow> True)"
| "sql_le (RealV x) b =
     (case b of Null \<Rightarrow> False | IntV j \<Rightarrow> x \<le> real_of_int j | RealV y \<Rightarrow> x \<le> y | TextV t \<Rightarrow> True)"
| "sql_le (TextV s) b = (case b of TextV t \<Rightarrow> s \<le> t | _ \<Rightarrow> False)"

text \<open>
  \<open>ORDER BY ts DESC\<close>, by insertion; rows with equal \<open>ts\<close>, whose order SQLite leaves
  open, stay in table order.
\<close>

fun insert_desc :: "row \<Rightarrow> row list \<Rightarrow> row list" where
  "insert_desc r [] = [r]"
| "insert_desc r (x # xs) =
     (if sql_le (rget x ''ts'') (rget r ''ts'') then r # x # xs else x # insert_desc r xs)"

definition order_by_ts_desc :: "row list \<Rightarrow> row list" where
  "order_by_ts_desc rs = foldr insert_desc rs []"

text \<open>\<open>LIMIT n\<close>: a negative limit is no limit.\<close>

definition limit :: "int \<Rightarrow> 'a list \<Rightarrow> 'a list" where
  "limit n xs = (if n < 0 then xs else take (nat n) xs)"

text \<open>The dict of a result row: the selected columns, NULL where the row has none.\<close>

definition select_cols :: "string list \<Rightarrow> row \<Rightarrow> row" where
  "select_cols cs r = map (\<lambda>c. (c, rget r c)) cs"

definition select_star :: "table \<Rightarrow> row \<Rightarrow> row" where
  "select_star t r = select_cols (map fst (t_cols t)) r"

text \<open>Preparing a statement on a table: the table and the columns it names must exist.\<close>

definition query_table :: "db \<Rightarrow> string \<Rightarrow> string list \<Rightarrow> py_error + table" where
  "query_table d tname used =
     (case tables d tname of
        None \<Rightarrow> Inl OperationalError
      | Some t \<Rightarrow> if has_cols t used then Inr t else Inl OperationalError)"

definition sum_bind :: "'e + 'a \<Rightarrow> ('a \<Rightarrow> 'e + 'b) \<Rightarrow> 'e + 'b" where
  "sum_bind m f = (case m of Inl e \<Rightarrow> Inl e | Inr x \<Rightarrow> f x)"

text \<open>\<open>SELECT * FROM tname ORDER BY ts DESC LIMIT n\<close>.\<close>

definition select_latest :: "db \<Rightarrow> string \<Rightarrow> int \<Rightarrow> py_error + row list" where
  "select_latest d tname n =
     sum_bind (query_table d tname [''ts''])
       (\<lambda>t. Inr (map (select_star t) (limit n (order_by_ts_desc (t_rows t)))))"

text \<open>
  \<open>sorted([t["toma"] for t in tomas if t.get("toma")])\<close> over \<open>SELECT DISTINCT toma\<close>:
  the non-empty names, each once, in order. A column of TEXT affinity holds text or NULL.
\<close>

definition toma_names :: "table \<Rightarrow> string list" where
  "toma_names t =
     sort (concat (map (\<lambda>v. case v of TextV s \<Rightarrow> (if s \<noteq> [] then [s] else []) | _ \<Rightarrow> [])
                       (remdups (map (\<lambda>r. rget r ''toma'') (t_rows t)))))"

text \<open>The rows of one outlet, newest first.\<close>

definition toma_rows_desc :: "table \<Rightarrow> string \<Rightarrow> row list" where
  "toma_rows_desc t tn = order_by_ts_desc (filter (\<lambda>r. rget r ''toma'' = TextV tn) (t_rows t))"

text \<open>The loop that fills \<open>latest_map\<close>: \<open>_one\<close> gives an empty dict when no row is found.\<close>

definition latest_map :: "table \<Rightarrow> string list \<Rightarrow> (string \<times> row) list" where
  "latest_map t names =
     concat (map (\<lambda>tn. case limit 1 (toma_rows_desc t tn) of
                          [] \<Rightarrow> []
                        | r # rs \<Rightarrow> [(tn, select_star t r)]) names)"

definition series_per_toma :: "table \<Rightarrow> int \<Rightarrow> string list \<Rightarrow> (string \<times> row list) list" where
  "series_per_toma t toma_points names =
     map (\<lambda>tn. (tn, rev (map (select_cols [''ts'', ''toma'', ''amperaje'', ''potencia_w'', ''estado'', ''rssi''])
                          (limit toma_points (toma_rows_desc t tn))))) names"

subsection \<open>The derived liveness map\<close>

record ttl_entry =
  e_ts :: int
  age_sec :: int
  online :: int
  e_amperaje :: sqlval
  e_potencia_w :: sqlval
  e_estado :: sqlval
  e_rssi :: sqlval

text \<open>\<open>int(r.get("ts") or 0)\<close>.\<close>

definition row_ts :: "row \<Rightarrow> py_error + int" where
  "row_ts r =
     (case rget r ''ts'' of
        Null \<Rightarrow> Inr 0
      | IntV n \<Rightarrow> Inr n
      | RealV x \<Rightarrow> Inr (if 0 \<le> x then \<lfloor>x\<rfloor> else \<lceil>x\<rceil>)
      | TextV s \<Rightarrow>
        if s = [] then Inr 0
        else (case str_to_int s of None \<Rightarrow> Inl ValueError | Some n \<Rightarrow> Inr n))"

text \<open>One pass of the loop over \<open>latest_map.items()\<close>.\<close>

definition ttl_entry_of :: "int \<Rightarrow> int \<Rightarrow> row \<Rightarrow> py_error + ttl_entry" where
  "ttl_entry_of now ttl r =
     sum_bind (row_ts r)
       (\<lambda>ts. let age = (if ts \<noteq> 0 then now - ts else 10 ^ 9)
             in Inr \<lparr>e_ts = ts, age_sec = age, online = (if age \<le> ttl then 1 else 0),
                     e_amperaje = rget r ''amperaje'', e_potencia_w = rget r ''potencia_w'',
                     e_estado = rget r ''estado'', e_rssi = rget r ''rssi''\<rparr>)"

fun by_ttl :: "int \<Rightarrow> int \<Rightarrow> (string \<times> row) list \<Rightarrow> py_error + (string \<times> ttl_entry) list" where
  "by_ttl now ttl [] = Inr []"
| "by_ttl now ttl ((tn, r) # rest) =
     sum_bind (ttl_entry_of now ttl r)
       (\<lambda>e. sum_bind (by_ttl now ttl rest) (\<lambda>es. Inr ((tn, e) # es)))"

subsection \<open>Alerts of the last 120 seconds\<close>

fun insert_asc :: "sqlval \<Rightarrow> sqlval list \<Rightarrow> sqlval list" where
  "insert_asc v [] = [v]"
| "insert_asc v (x # xs) = (if sql_le v x then v # x # xs else x # insert_asc v xs)"

definition recent_alerts :: "table \<Rightarrow> int \<Rightarrow> row list" where
  "recent_alerts t since = filter (\<lambda>r. sql_le (IntV since) (rget r ''ts'')) (t_rows t)"

text \<open>\<open>SELECT ts, COUNT(*) AS n ... GROUP BY ts ORDER BY ts ASC\<close>.\<close>

definition alert_series :: "table \<Rightarrow> int \<Rightarrow> row list" where
  "alert_series t since =
     (let tss = map (\<lambda>r. rget r ''ts'') (recent_alerts t since)
      in map (\<lambda>v. [(''ts'', v), (''n'', IntV (int (count_list tss v)))])
             (foldr insert_asc (remdups tss) []))"

subsection \<open>The snapshot\<close>

datatype view =
    Latest "row list"
  | Latest_series "row list" "row list"
  | Per_toma "(string \<times> row) list" "(string \<times> row list) list"
  | Alert_count int "row list"

record alerts =
  count_120s :: int
  series :: "row list"

text \<open>The returned dict; the dicts under \<open>tables\<close> and \<open>derived\<close> as lists of their items.\<close>

record snapshot =
  now_ts :: int
  ttl_sec :: int
  db_path :: string
  s_tables :: "(string \<times> view) list"
  s_derived :: "(string \<times> (string \<times> ttl_entry) list) list"
  s_alerts :: alerts

text \<open>The body of the \<open>try\<close> after \<open>ensure_schema\<close>: the queries, in the order of the source.\<close>

definition read_snapshot :: "int \<Rightarrow> string \<Rightarrow> int \<Rightarrow> int \<Rightarrow> int \<Rightarrow> db \<Rightarrow> py_error + snapshot" where
  "read_snapshot now path max_rows toma_points ttl d =
     sum_bind (select_latest d ''pi_samples'' 1) (\<lambda>pi_latest.
     sum_bind (select_latest d ''net_samples'' 1) (\<lambda>net_latest.
     sum_bind (select_latest d ''net_samples'' max_rows) (\<lambda>net_rows.
     sum_bind (query_table d ''toma_samples'' [''toma'']) (\<lambda>t.
       let names = toma_names t in
     sum_bind (if names = [] then Inr t else query_table d ''toma_samples'' [''toma'', ''ts'']) (\<lambda>t1.
     sum_bind (if names = [] then Inr t
               else query_table d ''toma_samples''
                      [''ts'', ''toma'', ''amperaje'', ''potencia_w'', ''estado'', ''rssi'']) (\<lambda>t2.
       let lm = latest_map t names;
           sp = series_per_toma t toma_points names in
     sum_bind (by_ttl now ttl lm) (\<lambda>bt.
     sum_bind (query_table d ''alert_samples'' [''ts'']) (\<lambda>ta.
       let count_120 = int (length (recent_alerts ta (now - 120)));
           ser = alert_series ta (now - 120)
       in Inr \<lparr>now_ts = now, ttl_sec = ttl, db_path = path,
                s_tables = [(''pi_samples'', Latest pi_latest),
                            (''net_samples'', Latest_series net_latest (rev net_rows)),
                            (''toma_samples'', Per_toma lm sp),
                            (''alert_samples'', Alert_count count_120 ser)],
                s_derived = [(''tomas_by_ttl'', bt)],
                s_alerts = \<lparr>count_120s = count_120, series = ser\<rparr>\<rparr>))))))))"

text \<open>
  \<open>build_snapshot\<close> at time \<open>now\<close>, on the path \<open>path\<close>; the store is \<open>None\<close> when no file
  is at the path. It returns the snapshot or the exception that left the function, and
  the store as the call left it.
\<close>

definition build_snapshot ::
  "int \<Rightarrow> string \<Rightarrow> int \<Rightarrow> int \<Rightarrow> int \<Rightarrow> db option \<Rightarrow> (py_error + snapshot) \<times> db option" where
  "build_snapshot now path max_rows toma_points ttl store =
     (case store of
        None \<Rightarrow>
          (Inr \<lparr>now_ts = now, ttl_sec = ttl, db_path = path, s_tables = [], s_derived = [],
                s_alerts = \<lparr>count_120s = 0, series = []\<rparr>\<rparr>, None)
      | Some d \<Rightarrow>
          (case ensure_schema_snapshot (connect d) of
             (Some e, d1) \<Rightarrow> (Inl e, Some d1)
           | (None, d1) \<Rightarrow> (read_snapshot now path max_rows toma_points ttl d1, Some d1)))"

text \<open>The liveness map of a snapshot: \<open>out["derived"]["tomas_by_ttl"]\<close>.\<close>

definition tomas_by_ttl :: "snapshot \<Rightarrow> (string \<times> ttl_entry) list" where
  "tomas_by_ttl s = (case map_of (s_derived s) ''tomas_by_ttl'' of Some m \<Rightarrow> m | None \<Rightarrow> [])"

section \<open>Notions used to state the properties of the store\<close>

text \<open>The second store has every table and every index the first one has.\<close>

definition later :: "db \<Rightarrow> db \<Rightarrow> bool" where
  "later d d' = (dom (tables d) \<subseteq> dom (tables d') \<and> dom (indexes d) \<subseteq> dom (indexes d'))"

text \<open>What an additive change may do: every table that was there is still there with the
  same rows and its columns followed by new ones, which leave the column names distinct if
  they were; every index that was there is unchanged; the journal mode is unchanged.\<close>

definition additive :: "db \<Rightarrow> db \<Rightarrow> bool" where
  "additive d d' =
     ((\<forall>tn t. tables d tn = Some t \<longrightarrow>
         (\<exists>new. tables d' tn = Some (t\<lparr>t_cols := t_cols t @ new\<rparr>)
            \<and> (distinct (map fst (t_cols t)) \<longrightarrow> distinct (map fst (t_cols t @ new)))))
      \<and> (\<forall>i x. indexes d i = Some x \<longrightarrow> indexes d' i = Some x)
      \<and> wal d' = wal d)"


text \<open>Statements that only ever add.\<close>

definition adding :: "(db \<Rightarrow> py_error + db) \<Rightarrow> bool" where
  "adding s = (\<forall>d d'. s d = Inr d' \<longrightarrow> later d d' \<and> additive d d')"










text \<open>The store that \<open>build_snapshot\<close> leaves when it finds an empty file.\<close>

definition fresh_store :: db where
  "fresh_store =
     \<lparr>tables = [''toma_samples'' \<mapsto> \<lparr>t_cols = snap_toma_schema, t_rows = []\<rparr>,
                 ''alert_samples'' \<mapsto> \<lparr>t_cols = snap_alert_schema, t_rows = []\<rparr>,
                 ''pi_samples'' \<mapsto> \<lparr>t_cols = pi_schema, t_rows = []\<rparr>,
                 ''net_samples'' \<mapsto> \<lparr>t_cols = net_schema, t_rows = []\<rparr>],
       indexes = [''idx_toma_ts'' \<mapsto> (''toma_samples'', [''toma'', ''ts'']),
                  ''idx_alert_ts'' \<mapsto> (''alert_samples'', [''ts'']),
                  ''idx_alert_toma_ts'' \<mapsto> (''alert_samples'', [''toma'', ''ts'']),
                  ''idx_pi_ts'' \<mapsto> (''pi_samples'', [''ts'']),
                  ''idx_net_ts'' \<mapsto> (''net_samples'', [''ts''])],
       wal = True\<rparr>"

text \<open>The snapshot of a store whose four tables have no rows.\<close>

definition empty_views :: "int \<Rightarrow> string \<Rightarrow> int \<Rightarrow> snapshot" where
  "empty_views now path ttl =
     \<lparr>now_ts = now, ttl_sec = ttl, db_path = path,
      s_tables = [(''pi_samples'', Latest []),
                  (''net_samples'', Latest_series [] []),
                  (''toma_samples'', Per_toma [] []),
                  (''alert_samples'', Alert_count 0 [])],
      s_derived = [(''tomas_by_ttl'', [])],
      s_alerts = \<lparr>count_120s = 0, series = []\<rparr>\<rparr>"

section \<open>Properties of the samplers\<close>

subsection \<open>Rates are never negative\<close>

lemma rate_mbps_nonneg: "rate_mbps cur prev = Some r \<Longrightarrow> 0 \<le> r"
  by (auto simp: rate_mbps_def INTERVAL_def Let_def split: option.splits if_splits)

lemma calc_nonneg: "0 < dt \<Longrightarrow> 0 \<le> fst (calc b dt rx_map cid)"
  by (simp add: calc_def Let_def)

lemma net_mbps_nonneg:
  "net_mbps s now tc = ((hi, med, low), s') \<Longrightarrow> 0 \<le> hi \<and> 0 \<le> med \<and> 0 \<le> low"
  by (auto simp: net_mbps_def calc_def Let_def split: option.splits prod.splits)

lemma class_ids_distinct:
  "CLASS_HIGH \<noteq> CLASS_MED" "CLASS_HIGH \<noteq> CLASS_LOW" "CLASS_MED \<noteq> CLASS_LOW"
  by (simp_all add: CLASS_HIGH_def CLASS_MED_def CLASS_LOW_def)

lemma calc_wrap:
  "b cid = Some cur \<Longrightarrow> rx_map cid = Some prev \<Longrightarrow> cur < prev \<Longrightarrow> fst (calc b dt rx_map cid) = 0"
  by (simp add: calc_def Let_def)

lemma calc_rx:
  "snd (calc b dt rx_map cid) = rx_map(cid \<mapsto> (case b cid of Some v \<Rightarrow> v | None \<Rightarrow> 0))"
  by (simp add: calc_def Let_def)

lemma net_mbps_step:
  "last_t s = Some lt \<Longrightarrow>
   fst (net_mbps s now (Some b)) =
     (let dt = max (2 / 10) (now - lt) in
      (fst (calc b dt (rx s) CLASS_HIGH),
       fst (calc b dt (snd (calc b dt (rx s) CLASS_HIGH)) CLASS_MED),
       fst (calc b dt (snd (calc b dt (snd (calc b dt (rx s) CLASS_HIGH)) CLASS_MED)) CLASS_LOW)))"
  by (simp add: net_mbps_def Let_def split: prod.splits)

text \<open>
  Claim C2, as the code has it. When the current counter value is strictly below the
  previous one, the two samplers differ: \<open>calc\<close> of stats_writer.py clamps the byte delta
  at zero, so the rate of that class is exactly 0.0, in \<open>calc\<close> itself and in each of the
  three positions of \<open>net_mbps\<close>; \<open>rate_mbps\<close> of estadisticas.py returns \<open>None\<close>, that
  is, no rate for that class in this tick. Neither yields a negative rate
  (\<open>rate_mbps_nonneg\<close>, \<open>net_mbps_nonneg\<close>).
\<close>

theorem wraparound_rate:
  assumes "cur < prev"
  shows "rate_mbps (Some cur) (Some prev) = None
       \<and> (b cid = Some cur \<and> rx_map cid = Some prev \<longrightarrow> fst (calc b dt rx_map cid) = 0)
       \<and> (last_t s = Some lt \<and> b CLASS_HIGH = Some cur \<and> rx s CLASS_HIGH = Some prev
            \<longrightarrow> fst (fst (net_mbps s now (Some b))) = 0)
       \<and> (last_t s = Some lt \<and> b CLASS_MED = Some cur \<and> rx s CLASS_MED = Some prev
            \<longrightarrow> fst (snd (fst (net_mbps s now (Some b)))) = 0)
       \<and> (last_t s = Some lt \<and> b CLASS_LOW = Some cur \<and> rx s CLASS_LOW = Some prev
            \<longrightarrow> snd (snd (fst (net_mbps s now (Some b)))) = 0)"
proof -
  have r: "rate_mbps (Some cur) (Some prev) = None"
    using assms by (simp add: rate_mbps_def)
  have c: "b cid = Some cur \<and> rx_map cid = Some prev \<longrightarrow> fst (calc b dt rx_map cid) = 0"
    using assms by (simp add: calc_wrap)
  have h: "last_t s = Some lt \<and> b CLASS_HIGH = Some cur \<and> rx s CLASS_HIGH = Some prev
            \<longrightarrow> fst (fst (net_mbps s now (Some b))) = 0"
    using assms by (simp add: net_mbps_step Let_def calc_wrap)
  have m: "last_t s = Some lt \<and> b CLASS_MED = Some cur \<and> rx s CLASS_MED = Some prev
            \<longrightarrow> fst (snd (fst (net_mbps s now (Some b)))) = 0"
    using assms class_ids_distinct by (simp add: net_mbps_step Let_def calc_wrap calc_rx)
  have l: "last_t s = Some lt \<and> b CLASS_LOW = Some cur \<and> rx s CLASS_LOW = Some prev
            \<longrightarrow> snd (snd (fst (net_mbps s now (Some b)))) = 0"
    using assms class_ids_distinct by (simp add: net_mbps_step Let_def calc_wrap calc_rx)
  from r c h m l show ?thesis by blast
qed

text \<open>The theorem at a counter that fell from 10 to 5.\<close>

theorem wraparound_rate_witness:
  "(5::int) < 10 \<and> rate_mbps (Some 5) (Some 10) = None
   \<and> fst (calc [CLASS_HIGH \<mapsto> 5] 1 [CLASS_HIGH \<mapsto> 10] CLASS_HIGH) = 0
   \<and> fst (fst (net_mbps \<lparr>rx = [CLASS_HIGH \<mapsto> 10], last_t = Some 0\<rparr> 1 (Some [CLASS_HIGH \<mapsto> 5]))) = 0"
  using wraparound_rate [of 5 10 "[CLASS_HIGH \<mapsto> 5]" CLASS_HIGH "[CLASS_HIGH \<mapsto> 10]" 1
      "\<lparr>rx = [CLASS_HIGH \<mapsto> 10], last_t = Some 0\<rparr>" 0 1]
  by simp

text \<open>
  Claim C2 as the spec words it fails on estadisticas.py: for a counter that fell from 10
  to 5, \<open>rate_mbps\<close> does not compute the rate 0.0.
\<close>

theorem wraparound_rate_counterexample:
  "(5::int) < 10 \<and> rate_mbps (Some 5) (Some 10) \<noteq> Some 0"
  by (simp add: rate_mbps_def)

subsection \<open>The per-class split of a tick\<close>

lemma tick_out_arbitrate:
  "arbitrate (tc_rates st (cur_tc rd)) (total_mbps (fst (tick st l rd)))
       (real (bytes_alert l) * 8 / 1000000) (real (bytes_telem l) * 8 / 1000000)
     = (hi_mbps (fst (tick st l rd)), med_mbps (fst (tick st l rd)),
        low_mbps (fst (tick st l rd)), qos_src (fst (tick st l rd)))"
  by (simp add: tick_def Let_def INTERVAL_def split: prod.splits)

lemma tick_accumulators:
  "snd (snd (tick st l rd)) = l\<lparr>bytes_telem := 0, bytes_alert := 0\<rparr>"
  by (simp add: tick_def Let_def split: prod.splits)

text \<open>
  Claim C3. In every tick: when any of the three shaper-derived rates is not \<open>None\<close> the
  source tag is \<open>tc\<close>, a missing high or medium rate counts as 0.0, and a missing low
  rate is \<open>max(total - high - medium, 0)\<close>; when all three are \<open>None\<close> the source tag is
  \<open>mqtt\<close>, the alert bytes of the window times 8 / 1e6 are the high class, the telemetry
  bytes the medium class, and the low class is \<open>max(total - high - medium, 0)\<close>. With no
  shaper counters, 125000 alert bytes and 250000 telemetry bytes give 1.0 and 2.0.
\<close>

theorem qos_arbitration:
  fixes st :: sampler and l :: latest_toma1 and rd :: readings
  shows
   "(let out = fst (tick st l rd);
         tc = tc_rates st (cur_tc rd);
         hi_tc = fst tc; med_tc = fst (snd tc); low_tc = snd (snd tc)
     in ((hi_tc \<noteq> None \<or> med_tc \<noteq> None \<or> low_tc \<noteq> None) \<longrightarrow>
            qos_src out = ''tc''
          \<and> hi_mbps out = (case hi_tc of Some r \<Rightarrow> r | None \<Rightarrow> 0)
          \<and> med_mbps out = (case med_tc of Some r \<Rightarrow> r | None \<Rightarrow> 0)
          \<and> (low_tc = None \<longrightarrow>
               low_mbps out = max (total_mbps out - hi_mbps out - med_mbps out) 0)
          \<and> (\<forall>r. low_tc = Some r \<longrightarrow> low_mbps out = r))
      \<and> (hi_tc = None \<and> med_tc = None \<and> low_tc = None \<longrightarrow>
            qos_src out = ''mqtt''
          \<and> hi_mbps out = real (bytes_alert l) * 8 / 1000000
          \<and> med_mbps out = real (bytes_telem l) * 8 / 1000000
          \<and> low_mbps out = max (total_mbps out - hi_mbps out - med_mbps out) 0)
      \<and> (cur_tc rd = [] \<and> bytes_alert l = 125000 \<and> bytes_telem l = 250000 \<longrightarrow>
            hi_mbps out = 1 \<and> med_mbps out = 2 \<and> qos_src out = ''mqtt''))"
proof -
  obtain hi_tc med_tc low_tc where tc: "tc_rates st (cur_tc rd) = (hi_tc, med_tc, low_tc)"
    by (cases "tc_rates st (cur_tc rd)") auto
  note arb = tick_out_arbitrate [of st rd l, unfolded tc]
  have empty: "cur_tc rd = [] \<Longrightarrow> hi_tc = None \<and> med_tc = None \<and> low_tc = None"
    using tc by (simp add: tc_rates_def)
  show ?thesis
    using arb empty
    by (cases hi_tc; cases med_tc; cases low_tc)
       (auto simp: tc Let_def arbitrate_def is_not_none_def)
qed

text \<open>
  Scenario B of the spec, with 500000 bytes received on the interface in the second: the
  message-volume source decides, and the low class takes the remaining 1.0.
\<close>

theorem qos_arbitration_witness:
  "(let out = fst (tick \<lparr>t0 = (0, 0), rx0 = 0, tx0 = 0, last_hi = None, last_med = None, last_low = None\<rparr>
                  (latest_init\<lparr>bytes_telem := 250000, bytes_alert := 125000\<rparr>)
                  \<lparr>cpu = (100, 50), net = (500000, 0), cur_tc = []\<rparr>)
    in hi_mbps out = 1 \<and> med_mbps out = 2 \<and> low_mbps out = 1 \<and> qos_src out = ''mqtt'')"
  using qos_arbitration [of "\<lparr>t0 = (0, 0), rx0 = 0, tx0 = 0, last_hi = None, last_med = None, last_low = None\<rparr>"
      "latest_init\<lparr>bytes_telem := 250000, bytes_alert := 125000\<rparr>"
      "\<lparr>cpu = (100, 50), net = (500000, 0), cur_tc = []\<rparr>"]
  by (simp add: Let_def latest_init_def tc_rates_def tick_def arbitrate_def INTERVAL_def is_not_none_def)

subsection \<open>The CPU percentage\<close>

text \<open>The percentage of stats_writer.py is clamped: it lies in [0, 100] on every input.\<close>

lemma cpu_pct_bounds: "0 \<le> fst (cpu_pct prev reading) \<and> fst (cpu_pct prev reading) \<le> 100"
  by (auto simp: cpu_pct_def Let_def split: option.splits)

text \<open>
  Claim C7 fails on the main loop of estadisticas.py, which has the guard on the total
  delta but no clamp. Two successive readings of /proc/stat in which iowait fell from 50
  to 45 while user time rose by 10 give a total delta of 5 and an idle delta of -5, and
  the loop computes 200.
\<close>

theorem main_cpu_pct_unclamped:
  "cpu_usage_total_idle [100, 0, 0, 1000, 50, 0, 0] = Inr (1150, 1050)
   \<and> cpu_usage_total_idle [110, 0, 0, 1000, 45, 0, 0] = Inr (1155, 1045)
   \<and> main_cpu_pct (1150, 1050) (1155, 1045) = 200
   \<and> cpu_pct_out (fst (tick (st\<lparr>t0 := (1150, 1050)\<rparr>) l (rd\<lparr>cpu := (1155, 1045)\<rparr>))) = 200"
  by (simp add: cpu_usage_total_idle_def main_cpu_pct_def tick_def Let_def split: prod.splits)

subsection \<open>The accumulators after a tick\<close>

text \<open>
  A tick zeroes the telemetry and the alert byte counters and leaves the status byte
  counter as it found it.
\<close>

lemma tick_resets_telem_alert:
  "bytes_telem (snd (snd (tick st l rd))) = 0 \<and> bytes_alert (snd (snd (tick st l rd))) = 0
   \<and> bytes_status (snd (snd (tick st l rd))) = bytes_status l"
  by (simp add: tick_accumulators)

text \<open>
  Claim C8 fails for the third per-window counter: after one status message of six bytes,
  \<open>bytes_status\<close> is 6 and a tick leaves it at 6.
\<close>

theorem status_bytes_survive_tick:
  "bytes_status (on_message latest_init \<lparr>topic = TOPIC_TOMA1_STATUS, raw = ''online'', parsed = Unparseable\<rparr> t) = 6
   \<and> bytes_status (snd (snd (tick st
        (on_message latest_init \<lparr>topic = TOPIC_TOMA1_STATUS, raw = ''online'', parsed = Unparseable\<rparr> t) rd))) = 6"
  by (simp add: tick_accumulators on_message_def latest_init_def Let_def
        TOPIC_TOMA1_STATUS_def TOPIC_TOMA1_TELEM_def TOPIC_TOMA1_ALERT_def)

section \<open>Properties of the ingestor\<close>

lemma sql_insert_rows:
  "sql_insert tname r d = Inr d' \<Longrightarrow>
     rows_of d' tname = rows_of d tname @ [r]
   \<and> (\<forall>t. t \<noteq> tname \<longrightarrow> tables d' t = tables d t)
   \<and> indexes d' = indexes d \<and> wal d' = wal d
   \<and> table_info d' = table_info d"
  by (auto simp: sql_insert_def rows_of_def table_info_def fun_eq_iff split: option.splits if_splits)

lemma bind_row_map_of:
  "bind_row ps = Inr r \<Longrightarrow> map_of ps c = Some v \<Longrightarrow> \<exists>x. v = Inr x \<and> map_of r c = Some x"
  by (induction ps arbitrary: r) (auto split: sum.splits if_splits)

lemma telem_params_lookup:
  "(map_of extra ++ map_of (telem_params ts tn doc)) ''seq'' = Some (bind_opt_int (safe_int (dget doc ''seq'')))"
  "(map_of extra ++ map_of (telem_params ts tn doc)) ''ms'' = Some (bind_opt_int (safe_int (dget doc ''ms'')))"
  "(map_of extra ++ map_of (telem_params ts tn doc)) ''sim'' = Some (bind_opt_int (safe_int (dget doc ''sim'')))"
  "(map_of extra ++ map_of (telem_params ts tn doc)) ''rssi'' = Some (bind_opt_int (safe_int (dget doc ''rssi'')))"
  "(map_of extra ++ map_of (telem_params ts tn doc)) ''amperaje'' = Some (bind_opt_float (safe_float (dget doc ''amperaje'')))"
  "(map_of extra ++ map_of (telem_params ts tn doc)) ''potencia_w'' = Some (bind_opt_float (safe_float (dget doc ''potencia_w'')))"
  "(map_of extra ++ map_of (telem_params ts tn doc)) ''toma'' = Some (Inr (TextV tn))"
  by (simp_all add: telem_params_def map_add_def)

lemma bound_field:
  "bind_row ps = Inr r \<Longrightarrow> map_of ps c = Some (Inr x) \<Longrightarrow> rget r c = x"
  using bind_row_map_of [of ps r c "Inr x"] by (auto simp: rget_def)

lemma bind_row_toma:
  "bind_row (telem_params ts tn doc @ extra) = Inr r \<Longrightarrow> rget r ''toma'' = TextV tn"
  using bound_field [of "telem_params ts tn doc @ extra" r "''toma''" "TextV tn"]
  by (simp add: telem_params_lookup)


lemma on_telem_cases:
  "on_telem ts d msg = d \<or>
   (\<exists>tn doc r. tn \<notin> RESERVED_IDS \<and> bind_row (telem_params ts tn doc) = Inr r
      \<and> sql_insert ''toma_samples'' r d = Inr (on_telem ts d msg))"
  by (auto simp: on_telem_def insert_telem_def Let_def split: option.splits payload.splits sum.splits)

lemma on_alert_cases:
  "on_alert ts d msg = d \<or>
   (\<exists>tn doc r. tn \<notin> RESERVED_IDS
      \<and> bind_row (telem_params ts tn doc @ [(''reason'', bind (dget doc ''reason''))]) = Inr r
      \<and> sql_insert ''alert_samples'' r d = Inr (on_alert ts d msg))"
  by (auto simp: on_alert_def insert_alert_def Let_def split: option.splits payload.splits sum.splits)

lemma split_on_prefix:
  "sep \<notin> set ns \<Longrightarrow> split_on sep (ns @ sep # rest) = ns # split_on sep rest"
  by (induction ns) (auto split: list.splits)

lemma topic_display:
  "CHR ''/'' \<notin> set ns \<Longrightarrow>
   topic_to_id (ns @ ''/display/telemetry'') = (if ns = ''safegrid'' then Some ''display'' else None)"
  by (simp add: topic_to_id_def split_on_prefix Let_def)

lemma lower_display: "lower ''display'' \<in> RESERVED_IDS"
  by (simp add: lower_def lower_char_def RESERVED_IDS_def less_eq_char_def)
















lemma reserved_id_dropped:
  "spec_message_id msg = Some i \<Longrightarrow> i \<in> RESERVED_IDS \<Longrightarrow> on_telem ts d msg = d \<and> on_alert ts d msg = d"
  by (auto simp: spec_message_id_def on_telem_def on_alert_def Let_def
           split: option.splits payload.splits sum.splits)

lemma on_telem_rows:
  "(rows_of (on_telem ts d msg) ''toma_samples'' = rows_of d ''toma_samples''
      \<or> (\<exists>r tn. rows_of (on_telem ts d msg) ''toma_samples'' = rows_of d ''toma_samples'' @ [r]
            \<and> rget r ''toma'' = TextV tn \<and> tn \<notin> RESERVED_IDS))
   \<and> rows_of (on_telem ts d msg) ''alert_samples'' = rows_of d ''alert_samples''"
proof -
  from on_telem_cases [of ts d msg] show ?thesis
  proof
    assume "on_telem ts d msg = d"
    then show ?thesis by simp
  next
    assume "\<exists>tn doc r. tn \<notin> RESERVED_IDS \<and> bind_row (telem_params ts tn doc) = Inr r
      \<and> sql_insert ''toma_samples'' r d = Inr (on_telem ts d msg)"
    then obtain tn doc r where tn: "tn \<notin> RESERVED_IDS"
      and b: "bind_row (telem_params ts tn doc) = Inr r"
      and i: "sql_insert ''toma_samples'' r d = Inr (on_telem ts d msg)" by blast
    from b have "rget r ''toma'' = TextV tn"
      using bind_row_toma [of ts tn doc "[]" r] by simp
    moreover from sql_insert_rows [OF i]
    have "rows_of (on_telem ts d msg) ''toma_samples'' = rows_of d ''toma_samples'' @ [r]"
      and "tables (on_telem ts d msg) ''alert_samples'' = tables d ''alert_samples''"
      by simp_all
    ultimately show ?thesis using tn by (auto simp: rows_of_def)
  qed
qed

lemma on_alert_rows:
  "(rows_of (on_alert ts d msg) ''alert_samples'' = rows_of d ''alert_samples''
      \<or> (\<exists>r tn. rows_of (on_alert ts d msg) ''alert_samples'' = rows_of d ''alert_samples'' @ [r]
            \<and> rget r ''toma'' = TextV tn \<and> tn \<notin> RESERVED_IDS))
   \<and> rows_of (on_alert ts d msg) ''toma_samples'' = rows_of d ''toma_samples''"
proof -
  from on_alert_cases [of ts d msg] show ?thesis
  proof
    assume "on_alert ts d msg = d"
    then show ?thesis by simp
  next
    assume "\<exists>tn doc r. tn \<notin> RESERVED_IDS
      \<and> bind_row (telem_params ts tn doc @ [(''reason'', bind (dget doc ''reason''))]) = Inr r
      \<and> sql_insert ''alert_samples'' r d = Inr (on_alert ts d msg)"
    then obtain tn doc r where tn: "tn \<notin> RESERVED_IDS"
      and b: "bind_row (telem_params ts tn doc @ [(''reason'', bind (dget doc ''reason''))]) = Inr r"
      and i: "sql_insert ''alert_samples'' r d = Inr (on_alert ts d msg)" by blast
    from b have "rget r ''toma'' = TextV tn"
      by (rule bind_row_toma)
    moreover from sql_insert_rows [OF i]
    have "rows_of (on_alert ts d msg) ''alert_samples'' = rows_of d ''alert_samples'' @ [r]"
      and "tables (on_alert ts d msg) ''toma_samples'' = tables d ''toma_samples''"
      by simp_all
    ultimately show ?thesis using tn by (auto simp: rows_of_def)
  qed
qed

lemma display_topic_dropped:
  "CHR ''/'' \<notin> set ns \<Longrightarrow> topic msg = ns @ ''/display/telemetry'' \<Longrightarrow> on_telem ts d msg = d"
  using lower_display by (simp add: on_telem_def topic_display Let_def)

text \<open>
  Claim C5. Whatever the topic and the payload, \<open>on_telem\<close> adds to the outlet table
  either nothing or one row whose identifier is outside the reserved set, and leaves the
  alert table alone; \<open>on_alert\<close> does the same for the alert table. A message whose
  identifier (payload field over topic segment, lowercased and trimmed) is reserved
  changes nothing, and neither does a message on the topic \<open>ns/display/telemetry\<close>.
\<close>

theorem reserved_ids_never_stored:
  "(rows_of (on_telem ts d msg) ''toma_samples'' = rows_of d ''toma_samples''
      \<or> (\<exists>r tn. rows_of (on_telem ts d msg) ''toma_samples'' = rows_of d ''toma_samples'' @ [r]
            \<and> rget r ''toma'' = TextV tn \<and> tn \<notin> RESERVED_IDS))
   \<and> rows_of (on_telem ts d msg) ''alert_samples'' = rows_of d ''alert_samples''
   \<and> (rows_of (on_alert ts d msg) ''alert_samples'' = rows_of d ''alert_samples''
      \<or> (\<exists>r tn. rows_of (on_alert ts d msg) ''alert_samples'' = rows_of d ''alert_samples'' @ [r]
            \<and> rget r ''toma'' = TextV tn \<and> tn \<notin> RESERVED_IDS))
   \<and> rows_of (on_alert ts d msg) ''toma_samples'' = rows_of d ''toma_samples''
   \<and> (\<forall>i. spec_message_id msg = Some i \<and> i \<in> RESERVED_IDS \<longrightarrow>
         on_telem ts d msg = d \<and> on_alert ts d msg = d)
   \<and> (\<forall>ns. CHR ''/'' \<notin> set ns \<and> topic msg = ns @ ''/display/telemetry'' \<longrightarrow>
         on_telem ts d msg = d)"
  using on_telem_rows [of ts d msg] on_alert_rows [of ts d msg]
    reserved_id_dropped [of msg _ ts d] display_topic_dropped [of _ msg ts d]
  by blast

text \<open>
  The theorem at two messages on a freshly set up store: one on the display topic, and an
  alert whose payload names the outlet \<open>" PI "\<close>.
\<close>

theorem reserved_ids_never_stored_witness:
  "on_telem 1000 (snd (Writer_init empty_db))
       \<lparr>topic = ''safegrid/display/telemetry'', raw = ''{}'', parsed = Object []\<rparr>
     = snd (Writer_init empty_db)
   \<and> spec_message_id \<lparr>topic = ''safegrid/toma1/alert'', raw = ''{\"toma\": \" PI \"}'',
                       parsed = Object [(''toma'', JStr '' PI '')]\<rparr> = Some ''pi''
   \<and> on_alert 1000 (snd (Writer_init empty_db))
       \<lparr>topic = ''safegrid/toma1/alert'', raw = ''{\"toma\": \" PI \"}'',
        parsed = Object [(''toma'', JStr '' PI '')]\<rparr>
     = snd (Writer_init empty_db)"
proof -
  let ?d = "snd (Writer_init empty_db)"
  let ?m1 = "\<lparr>topic = ''safegrid/display/telemetry'', raw = ''{}'', parsed = Object []\<rparr>"
  let ?m2 = "\<lparr>topic = ''safegrid/toma1/alert'', raw = ''{\"toma\": \" PI \"}'',
              parsed = Object [(''toma'', JStr '' PI '')]\<rparr>"
  have id: "spec_message_id ?m2 = Some ''pi''"
    by code_simp
  have r: "''pi'' \<in> RESERVED_IDS"
    by (simp add: RESERVED_IDS_def)
  from reserved_ids_never_stored [of 1000 ?d ?m1]
  have "CHR ''/'' \<notin> set ''safegrid'' \<and> topic ?m1 = ''safegrid'' @ ''/display/telemetry''
          \<longrightarrow> on_telem 1000 ?d ?m1 = ?d"
    by blast
  then have a: "on_telem 1000 ?d ?m1 = ?d" by simp
  from reserved_ids_never_stored [of 1000 ?d ?m2]
  have "spec_message_id ?m2 = Some ''pi'' \<and> ''pi'' \<in> RESERVED_IDS \<longrightarrow> on_alert 1000 ?d ?m2 = ?d"
    by blast
  with id r have b: "on_alert 1000 ?d ?m2 = ?d" by simp
  from a id b show ?thesis by simp
qed

subsection \<open>Malformed payloads\<close>












section \<open>Properties of the schema setup\<close>










lemma add_column_props:
  assumes "add_column tn col d = Inr d'"
  shows "later d d'" "additive d d'"
proof -
  from assms obtain t where t: "tables d tn = Some t" and c: "fst col \<notin> set (map fst (t_cols t))"
    and d': "d' = d\<lparr>tables := (tables d)(tn \<mapsto> t\<lparr>t_cols := t_cols t @ [col]\<rparr>)\<rparr>"
    by (auto simp: add_column_def split: option.splits if_splits)
  show "later d d'" using t d' by (auto simp: later_def)
  have "\<exists>new. tables d' tn' = Some (t'\<lparr>t_cols := t_cols t' @ new\<rparr>)
            \<and> (distinct (map fst (t_cols t')) \<longrightarrow> distinct (map fst (t_cols t' @ new)))"
    if a: "tables d tn' = Some t'" for tn' t'
  proof (cases "tn' = tn")
    case True
    with a t have "t' = t" by simp
    then show ?thesis
      by (intro exI [of _ "[col]"]) (use True d' c in auto)
  next
    case False
    then show ?thesis
      by (intro exI [of _ "[]"]) (use a d' in auto)
  qed
  then show "additive d d'" unfolding additive_def using d' by simp
qed




lemma adding_add_column: "adding (add_column tn col)"
  unfolding adding_def using add_column_props by blast

















































section \<open>Properties of the snapshot builder\<close>










lemma schema_has_cols:
  "has_cols \<lparr>t_cols = snap_toma_schema, t_rows = rs\<rparr> [''toma'', ''ts'']"
  "has_cols \<lparr>t_cols = snap_toma_schema, t_rows = rs\<rparr> [''toma'']"
  "has_cols \<lparr>t_cols = snap_toma_schema, t_rows = rs\<rparr>
     [''ts'', ''toma'', ''amperaje'', ''potencia_w'', ''estado'', ''rssi'']"
  "has_cols \<lparr>t_cols = snap_alert_schema, t_rows = rs\<rparr> [''ts'']"
  "has_cols \<lparr>t_cols = snap_alert_schema, t_rows = rs\<rparr> [''toma'', ''ts'']"
  "has_cols \<lparr>t_cols = pi_schema, t_rows = rs\<rparr> [''ts'']"
  "has_cols \<lparr>t_cols = net_schema, t_rows = rs\<rparr> [''ts'']"
  by (simp_all add: has_cols_def snap_toma_schema_def snap_alert_schema_def pi_schema_def
        net_schema_def)

lemma ensure_on_empty_file:
  "ensure_schema_snapshot (connect empty_db) = (None, fresh_store)"
  by (simp add: ensure_schema_snapshot_def connect_def set_wal_def empty_db_def fresh_store_def
        create_table_def create_index_def schema_has_cols)


lemma read_fresh_store:
  "read_snapshot now path mr tp ttl fresh_store = Inr (empty_views now path ttl)"
  by (simp add: read_snapshot_def sum_bind_def select_latest_def query_table_def fresh_store_def
        schema_has_cols order_by_ts_desc_def limit_def toma_names_def latest_map_def
        series_per_toma_def recent_alerts_def alert_series_def empty_views_def Let_def)

lemma build_on_empty_file:
  "build_snapshot now path mr tp ttl (Some empty_db) = (Inr (empty_views now path ttl), Some fresh_store)"
  by (simp add: build_snapshot_def ensure_on_empty_file read_fresh_store)


lemma sum_bind_InrE:
  assumes "sum_bind m f = Inr y"
  obtains x where "m = Inr x" "f x = Inr y"
  using assms by (cases m) (simp_all add: sum_bind_def)

lemma read_snapshot_views:
  assumes "read_snapshot now path mr tp ttl d = Inr snap"
  shows "s_tables snap \<noteq> [] \<and> s_derived snap \<noteq> []"
  using assms unfolding read_snapshot_def Let_def
  by (elim sum_bind_InrE) auto



text \<open>
  Claim C4. With no file at the path, \<open>build_snapshot\<close> returns, without raising and
  without creating the file, the snapshot whose \<open>tables\<close> and \<open>derived\<close> dicts are empty
  and whose \<open>alerts\<close> are count 0 and an empty series. Among the snapshots it returns,
  the empty \<open>tables\<close> and \<open>derived\<close> dicts mark exactly the missing store.
\<close>

theorem build_snapshot_without_store:
  "build_snapshot now path mr tp ttl None
     = (Inr \<lparr>now_ts = now, ttl_sec = ttl, db_path = path, s_tables = [], s_derived = [],
             s_alerts = \<lparr>count_120s = 0, series = []\<rparr>\<rparr>, None)
   \<and> (\<forall>store snap. fst (build_snapshot now path mr tp ttl store) = Inr snap \<longrightarrow>
         (s_tables snap = [] \<longleftrightarrow> store = None)
         \<and> (s_derived snap = [] \<longleftrightarrow> store = None))"
proof -
  have 1: "build_snapshot now path mr tp ttl None
     = (Inr \<lparr>now_ts = now, ttl_sec = ttl, db_path = path, s_tables = [], s_derived = [],
             s_alerts = \<lparr>count_120s = 0, series = []\<rparr>\<rparr>, None)"
    by (simp add: build_snapshot_def)
  have 3: "(s_tables snap = [] \<longleftrightarrow> store = None) \<and> (s_derived snap = [] \<longleftrightarrow> store = None)"
    if a: "fst (build_snapshot now path mr tp ttl store) = Inr snap" for store snap
  proof (cases store)
    case None
    with a 1 have "snap = \<lparr>now_ts = now, ttl_sec = ttl, db_path = path, s_tables = [],
        s_derived = [], s_alerts = \<lparr>count_120s = 0, series = []\<rparr>\<rparr>"
      by simp
    with None show ?thesis by simp
  next
    case (Some d)
    obtain e d1 where ens: "ensure_schema_snapshot (connect d) = (e, d1)"
      by (cases "ensure_schema_snapshot (connect d)") auto
    with a Some have "read_snapshot now path mr tp ttl d1 = Inr snap"
      by (cases e) (simp_all add: build_snapshot_def)
    from read_snapshot_views [OF this] Some show ?thesis by simp
  qed
  from 1 3 show ?thesis by blast
qed

text \<open>The theorem with no file, and on an empty file, where the four views are returned.\<close>

theorem build_snapshot_without_store_witness:
  "fst (build_snapshot 1000 ''safegrid.db'' 60 60 10 None)
     = Inr \<lparr>now_ts = 1000, ttl_sec = 10, db_path = ''safegrid.db'', s_tables = [], s_derived = [],
             s_alerts = \<lparr>count_120s = 0, series = []\<rparr>\<rparr>
   \<and> s_tables (empty_views 1000 ''safegrid.db'' 10) \<noteq> []"
proof -
  note th = build_snapshot_without_store [of 1000 "''safegrid.db''" 60 60 10]
  have 1: "fst (build_snapshot 1000 ''safegrid.db'' 60 60 10 None)
     = Inr \<lparr>now_ts = 1000, ttl_sec = 10, db_path = ''safegrid.db'', s_tables = [], s_derived = [],
             s_alerts = \<lparr>count_120s = 0, series = []\<rparr>\<rparr>"
    by (simp only: th [THEN conjunct1] fst_conv)
  have f: "fst (build_snapshot 1000 ''safegrid.db'' 60 60 10 (Some empty_db))
             = Inr (empty_views 1000 ''safegrid.db'' 10)"
    by (simp only: build_on_empty_file fst_conv)
  from th [THEN conjunct2, rule_format, OF f]
  have "(s_tables (empty_views 1000 ''safegrid.db'' 10) = []) = (Some empty_db = None)"
    by (rule conjunct1)
  then have 2: "s_tables (empty_views 1000 ''safegrid.db'' 10) \<noteq> []"
    by simp
  from 1 2 show ?thesis by (intro conjI)
qed

end
